theory Spec2Isabelle
  imports Complex_Main "HOL-Library.Multiset" "HOL-Library.Product_Lexorder"
begin

section \<open>Data model (types.ts)\<close>

text \<open>
  A JavaScript number is a real or NaN; rounding of IEEE doubles and the infinities are
  outside this model. Arithmetic and \<open>Math.max\<close> return NaN as soon as one operand
  is NaN.
\<close>

datatype number = Num real | NaN

definition arith :: "(real \<Rightarrow> real \<Rightarrow> real) \<Rightarrow> number \<Rightarrow> number \<Rightarrow> number" where
  "arith f a b = (case a of NaN \<Rightarrow> NaN | Num x \<Rightarrow> (case b of NaN \<Rightarrow> NaN | Num y \<Rightarrow> Num (f x y)))"

definition Math_max :: "number \<Rightarrow> number \<Rightarrow> number" where
  "Math_max a b = arith max a b"

text \<open>The comparison \<open>x >= 0\<close>, which is false of NaN.\<close>

definition nonneg :: "number \<Rightarrow> bool" where
  "nonneg x = (case x of NaN \<Rightarrow> False | Num r \<Rightarrow> 0 \<le> r)"

text \<open>
  A \<open>Date\<close> holds a time value, an integer number of milliseconds since the epoch,
  or is an Invalid Date, as \<open>new Date(s)\<close> is for a string \<open>s\<close> that does not parse;
  \<open>getTime()\<close> of an Invalid Date is NaN.
\<close>

datatype Date = Date int | InvalidDate

definition getTime :: "Date \<Rightarrow> number" where
  "getTime d = (case d of Date t \<Rightarrow> Num (real_of_int t) | InvalidDate \<Rightarrow> NaN)"

text \<open>A \<open>FeedItem\<close> as the adapters build it. Optional fields are options; the
  engagement counts are integers.\<close>

record FeedItem =
  item_id :: string
  source :: string
  title :: string
  url :: string
  content :: "string option"
  author :: "string option"
  points :: "int option"
  comments :: "int option"
  published_at :: Date
  cached_at :: Date
  rank_score :: "number option"

record RSSFeedConfig =
  feed_url :: string
  feed_name :: string
  refresh_interval_minutes :: "int option"

section \<open>Strings\<close>

text \<open>
  \<open>String.prototype.toLowerCase\<close> on the ASCII range: the letters A to Z move to a to z,
  every other character is kept.
\<close>

definition lower_char :: "char \<Rightarrow> char" where
  "lower_char c =
     (let n = (of_char c :: nat) in if 65 \<le> n \<and> n \<le> 90 then char_of (n + 32) else c)"

definition toLowerCase :: "string \<Rightarrow> string" where
  "toLowerCase s = map lower_char s"

text \<open>\<open>startsWith\<close>: the text begins with the given string.\<close>

fun startsWith :: "string \<Rightarrow> string \<Rightarrow> bool" where
  "startsWith t [] = True"
| "startsWith [] (k # ks) = False"
| "startsWith (c # cs) (k # ks) = (c = k \<and> startsWith cs ks)"

text \<open>\<open>String.prototype.includes\<close>: the string occurs at some position of the text.\<close>

fun str_includes :: "string \<Rightarrow> string \<Rightarrow> bool" where
  "str_includes [] k = (k = [])"
| "str_includes (c # cs) k = (startsWith (c # cs) k \<or> str_includes cs k)"

section \<open>Ranking (ranking.ts)\<close>

record category =
  cat_keywords :: "string list"
  cat_weight :: real

text \<open>The values of \<open>BOOST_KEYWORDS\<close> in the order of \<open>Object.values\<close>: tools,
  aiTechniques, securityTechniques, practicalContent.\<close>

definition BOOST_KEYWORDS :: "category list" where
  "BOOST_KEYWORDS =
    [\<lparr>cat_keywords =
        [''claude-code'', ''claude code'', ''vscode'', ''vs code'', ''visual studio code'',
         ''github'', ''aws'', ''cloudflare'', ''cursor'', ''ruby on rails'', ''rails'',
         ''copilot'', ''typescript'', ''react'', ''node.js'', ''nodejs''],
      cat_weight = 50\<rparr>,
     \<lparr>cat_keywords =
        [''ai development'', ''prompt engineering'', ''llm'', ''agent'', ''agents'',
         ''langchain'', ''openai'', ''anthropic'', ''claude'', ''gpt'',
         ''embeddings'', ''rag'', ''fine-tuning'', ''ai coding'', ''code generation'',
         ''mcp'', ''model context protocol''],
      cat_weight = 30\<rparr>,
     \<lparr>cat_keywords =
        [''app security'', ''application security'', ''appsec'', ''vulnerability'',
         ''pentest'', ''penetration testing'', ''exploit'', ''security testing'',
         ''owasp'', ''xss'', ''sql injection'', ''csrf'', ''authentication'',
         ''authorization'', ''secure coding'', ''security audit''],
      cat_weight = 30\<rparr>,
     \<lparr>cat_keywords =
        [''how to'', ''tutorial'', ''guide'', ''technique'', ''best practices'',
         ''deep dive'', ''case study'', ''implementation'', ''walkthrough'',
         ''explained'', ''introducing'', ''new feature'', ''update'', ''release''],
      cat_weight = 20\<rparr>]"

text \<open>The values of \<open>PENALTY_KEYWORDS\<close>: funding, genericHype.\<close>

definition PENALTY_KEYWORDS :: "category list" where
  "PENALTY_KEYWORDS =
    [\<lparr>cat_keywords =
        [''raises'', ''funding'', ''series a'', ''series b'', ''series c'',
         ''valuation'', ''ipo'', ''acquisition'', ''acquires'', ''invested'',
         ''investment'', ''venture capital'', ''vc'', ''seed round''],
      cat_weight = - 40\<rparr>,
     \<lparr>cat_keywords =
        [''announces partnership'', ''strategic partnership'', ''collaboration'',
         ''expands into'', ''appoints'', ''names'', ''ceo'', ''rebrands''],
      cat_weight = - 20\<rparr>]"

text \<open>The inner loop over the keywords of one category: the first keyword found in the
  text adds the weight to the running score and leaves the loop (\<open>break\<close>).\<close>

fun scan_keywords :: "string \<Rightarrow> string list \<Rightarrow> real \<Rightarrow> real \<Rightarrow> real" where
  "scan_keywords text [] w score = score"
| "scan_keywords text (k # ks) w score =
     (if str_includes text (toLowerCase k) then score + w else scan_keywords text ks w score)"

text \<open>The outer loop over the categories, threading the running score.\<close>

fun scan_categories :: "string \<Rightarrow> category list \<Rightarrow> real \<Rightarrow> real" where
  "scan_categories text [] score = score"
| "scan_categories text (c # cs) score =
     scan_categories text cs (scan_keywords text (cat_keywords c) (cat_weight c) score)"

definition item_text :: "FeedItem \<Rightarrow> string" where
  "item_text item =
     toLowerCase (title item @ '' '' @ (case content item of None \<Rightarrow> '''' | Some c \<Rightarrow> c))"

definition calculateKeywordScore :: "FeedItem \<Rightarrow> real" where
  "calculateKeywordScore item =
     scan_categories (item_text item) PENALTY_KEYWORDS
       (scan_categories (item_text item) BOOST_KEYWORDS 0)"

text \<open>\<open>if (item.points)\<close> holds for a number that is present and not zero.\<close>

definition calculateEngagementScore :: "FeedItem \<Rightarrow> real" where
  "calculateEngagementScore item =
     (let s0 = (0::real);
          s1 = (case points item of
                  None \<Rightarrow> s0
                | Some p \<Rightarrow> if p \<noteq> 0 then s0 + real_of_int p * (1 / 10) else s0);
          s2 = (case comments item of
                  None \<Rightarrow> s1
                | Some c \<Rightarrow> if c \<noteq> 0 then s1 + real_of_int c * (5 / 100) else s1)
      in s2)"

text \<open>The clock \<open>Date.now()\<close> is the parameter \<open>now\<close>, in milliseconds.\<close>

definition calculateRecencyScore :: "int \<Rightarrow> FeedItem \<Rightarrow> number" where
  "calculateRecencyScore now item =
     (let ageInHours =
            arith (/) (arith (-) (Num (real_of_int now)) (getTime (published_at item)))
              (Num (1000 * 60 * 60))
      in Math_max (Num 0) (arith (-) (Num 100) ageInHours))"

definition premiumSources :: "string list" where
  "premiumSources =
     [''hackernews'', ''rss:awsblog'', ''rss:cloudflare'', ''rss:github'',
      ''rss:tldr-ai'', ''rss:tldr-infosec'', ''rss:krebs'']"

definition generalSources :: "string list" where
  "generalSources = [''rss:techcrunch'', ''rss:verge'']"

definition calculateSourceScore :: "FeedItem \<Rightarrow> real" where
  "calculateSourceScore item =
     (let src = toLowerCase (source item)
      in if list_ex (\<lambda>s. str_includes src s) premiumSources then 20
         else if list_ex (\<lambda>s. str_includes src s) generalSources then - 10
         else 0)"

definition calculateRankScore :: "int \<Rightarrow> FeedItem \<Rightarrow> number" where
  "calculateRankScore now item =
     (let keywordScore = Num (calculateKeywordScore item);
          engagementScore = Num (calculateEngagementScore item);
          recencyScore = calculateRecencyScore now item;
          sourceScore = Num (calculateSourceScore item);
          totalScore =
            arith (+) (arith (+) (arith (+) keywordScore engagementScore) recencyScore)
              sourceScore
      in Math_max (Num 0) totalScore)"


section \<open>Specification-side definitions and example inputs for the ranking\<close>



text \<open>The item of the specification's worked example, published one hour before \<open>now\<close>.\<close>

definition example_item :: "int \<Rightarrow> FeedItem" where
  "example_item now =
     \<lparr>item_id = ''hn:1'', source = ''hackernews'', title = ''New AI agent released'',
      url = ''https://example.com/agent'', content = Some '''', author = None,
      points = Some 200, comments = Some 50, published_at = Date (now - 3600000),
      cached_at = Date now, rank_score = None\<rparr>"

text \<open>The funding post of the specification's second example, published at \<open>pub\<close>.\<close>

definition funding_item :: "int \<Rightarrow> FeedItem" where
  "funding_item pub =
     \<lparr>item_id = ''rss:techcrunch:1'', source = ''rss:techcrunch'',
      title = ''Acme raises Series B'', url = ''https://example.com/acme'', content = None,
      author = None, points = None, comments = None, published_at = Date pub,
      cached_at = Date pub, rank_score = None\<rparr>"

text \<open>An item as the RSS adapter builds it from an entry whose \<open>pubDate\<close> does not
  parse: \<open>new Date(item.pubDate)\<close> is an Invalid Date.\<close>

definition unparsed_date_item :: "int \<Rightarrow> FeedItem" where
  "unparsed_date_item now =
     \<lparr>item_id = ''rss:blog:https://blog.example/post'', source = ''rss:blog'',
      title = ''A post'', url = ''https://blog.example/post'', content = Some ''Text'',
      author = None, points = None, comments = None, published_at = InvalidDate,
      cached_at = Date now, rank_score = None\<rparr>"

section \<open>Cache store (storage/database.ts)\<close>

text \<open>
  A row of the table \<open>feed_items\<close>. The columns \<open>content\<close>, \<open>author\<close>, \<open>points\<close> and
  \<open>comments\<close> may be NULL (\<open>None\<close>); the two timestamps are whole seconds. The table is
  the list of its rows; \<open>id\<close> is the primary key.
\<close>

record Row =
  row_id :: string
  row_source :: string
  row_title :: string
  row_url :: string
  row_content :: "string option"
  row_author :: "string option"
  row_points :: "int option"
  row_comments :: "int option"
  row_published_at :: int
  row_cached_at :: int
  row_rank_score :: real

type_synonym FeedDatabase = "Row list"

text \<open>\<open>x || null\<close>: an absent or empty string, or an absent or zero number, is stored
  as NULL. \<open>item.rank_score || 0\<close>: an absent score, and also NaN, is stored as 0.\<close>

definition str_or_null :: "string option \<Rightarrow> string option" where
  "str_or_null x = (case x of None \<Rightarrow> None | Some s \<Rightarrow> if s = [] then None else Some s)"

definition num_or_null :: "int option \<Rightarrow> int option" where
  "num_or_null x = (case x of None \<Rightarrow> None | Some n \<Rightarrow> if n = 0 then None else Some n)"

definition score_or_zero :: "number option \<Rightarrow> real" where
  "score_or_zero x = (case x of None \<Rightarrow> 0 | Some NaN \<Rightarrow> 0 | Some (Num s) \<Rightarrow> s)"

text \<open>\<open>Math.floor(d.getTime() / 1000)\<close>: the whole seconds of a date, \<open>None\<close> for the NaN
  of an Invalid Date, which SQLite binds as NULL.\<close>

definition unix_seconds :: "Date \<Rightarrow> int option" where
  "unix_seconds d = (case d of Date t \<Rightarrow> Some (t div 1000) | InvalidDate \<Rightarrow> None)"

text \<open>A statement that would store NULL in a \<open>NOT NULL\<close> column is aborted; the error
  names the column.\<close>

datatype sqlite_error = NotNullFailed string

definition error_text :: "sqlite_error \<Rightarrow> string" where
  "error_text e =
     (case e of NotNullFailed column \<Rightarrow>
        ''SqliteError: NOT NULL constraint failed: feed_items.'' @ column)"

text \<open>The values bound by \<open>saveFeedItem\<close>.\<close>

definition toRow :: "FeedItem \<Rightarrow> sqlite_error + Row" where
  "toRow item =
     (case unix_seconds (published_at item) of
        None \<Rightarrow> Inl (NotNullFailed ''published_at'')
      | Some p \<Rightarrow>
          (case unix_seconds (cached_at item) of
             None \<Rightarrow> Inl (NotNullFailed ''cached_at'')
           | Some c \<Rightarrow>
               Inr \<lparr>row_id = item_id item,
                    row_source = source item,
                    row_title = title item,
                    row_url = url item,
                    row_content = str_or_null (content item),
                    row_author = str_or_null (author item),
                    row_points = num_or_null (points item),
                    row_comments = num_or_null (comments item),
                    row_published_at = p,
                    row_cached_at = c,
                    row_rank_score = score_or_zero (rank_score item)\<rparr>))"

text \<open>\<open>INSERT OR REPLACE\<close>: a row with the same primary key is deleted, then the new
  row is inserted.\<close>

definition insert_or_replace :: "Row \<Rightarrow> FeedDatabase \<Rightarrow> FeedDatabase" where
  "insert_or_replace row db = filter (\<lambda>r. row_id r \<noteq> row_id row) db @ [row]"

text \<open>\<open>saveFeedItem\<close> returns the table after the insert, or the error thrown, in
  which case the table is as it was.\<close>

definition saveFeedItem :: "FeedItem \<Rightarrow> FeedDatabase \<Rightarrow> sqlite_error + FeedDatabase" where
  "saveFeedItem item db =
     (case toRow item of
        Inl e \<Rightarrow> Inl e
      | Inr row \<Rightarrow> Inr (insert_or_replace row db))"

text \<open>The transaction saves the items one after the other; the first error rolls all
  of them back and is thrown.\<close>

fun saveFeedItems :: "FeedItem list \<Rightarrow> FeedDatabase \<Rightarrow> sqlite_error + FeedDatabase" where
  "saveFeedItems [] db = Inr db"
| "saveFeedItems (item # items) db =
     (case saveFeedItem item db of
        Inl e \<Rightarrow> Inl e
      | Inr db' \<Rightarrow> saveFeedItems items db')"

text \<open>The mapping of a selected row back to a \<open>FeedItem\<close>.\<close>

definition fromRow :: "Row \<Rightarrow> FeedItem" where
  "fromRow row =
     \<lparr>item_id = row_id row,
      source = row_source row,
      title = row_title row,
      url = row_url row,
      content = row_content row,
      author = row_author row,
      points = row_points row,
      comments = row_comments row,
      published_at = Date (row_published_at row * 1000),
      cached_at = Date (row_cached_at row * 1000),
      rank_score = Some (Num (row_rank_score row))\<rparr>"

text \<open>\<open>ORDER BY rank_score DESC, published_at DESC\<close>: a stable sort on the pair of the
  negated keys, compared lexicographically.\<close>

definition order_by_rank :: "Row list \<Rightarrow> Row list" where
  "order_by_rank rows = sort_key (\<lambda>r. (- row_rank_score r, - row_published_at r)) rows"

text \<open>\<open>LIMIT n\<close>: the first \<open>n\<close> rows; a negative \<open>n\<close> puts no bound on the result.\<close>

definition sql_limit :: "int \<Rightarrow> 'a list \<Rightarrow> 'a list" where
  "sql_limit n rows = (if n < 0 then rows else take (nat n) rows)"

record FeedOptions =
  opt_source :: "string option"
  opt_limit :: "int option"
  opt_since :: "int option"

text \<open>
  The query of \<open>getFeedItems\<close>. Each clause is added when the option is truthy: a
  source that is present and not empty, a \<open>since\<close> date that is present, a limit that
  is present and not zero.
\<close>

definition where_source :: "string option \<Rightarrow> Row \<Rightarrow> bool" where
  "where_source s r =
     (case s of None \<Rightarrow> True | Some S \<Rightarrow> if S \<noteq> [] then row_source r = S else True)"

definition where_since :: "int option \<Rightarrow> Row \<Rightarrow> bool" where
  "where_since t r =
     (case t of None \<Rightarrow> True | Some T \<Rightarrow> row_published_at r \<ge> T div 1000)"

definition selectFeedRows :: "FeedDatabase \<Rightarrow> FeedOptions \<Rightarrow> Row list" where
  "selectFeedRows db options =
     (let rows = order_by_rank
                   (filter (\<lambda>r. where_source (opt_source options) r \<and>
                                 where_since (opt_since options) r) db)
      in case opt_limit options of
           None \<Rightarrow> rows
         | Some L \<Rightarrow> if L \<noteq> 0 then sql_limit L rows else rows)"

definition getFeedItems :: "FeedDatabase \<Rightarrow> FeedOptions \<Rightarrow> FeedItem list" where
  "getFeedItems db options = map fromRow (selectFeedRows db options)"

text \<open>
  SQLite's \<open>LIKE\<close> without an escape character: \<open>%\<close> matches any run of characters,
  \<open>_\<close> matches any one character, any other character matches itself without regard
  to the case of ASCII letters.
\<close>

fun sql_like :: "string \<Rightarrow> string \<Rightarrow> bool" where
  "sql_like [] t = (t = [])"
| "sql_like (p # ps) [] = (p = CHR ''%'' \<and> sql_like ps [])"
| "sql_like (p # ps) (c # cs) =
     (if p = CHR ''%'' then sql_like ps (c # cs) \<or> sql_like (p # ps) cs
      else (p = CHR ''_'' \<or> lower_char p = lower_char c) \<and> sql_like ps cs)"

text \<open>A NULL column never matches.\<close>

definition like_null :: "string \<Rightarrow> string option \<Rightarrow> bool" where
  "like_null pat x = (case x of None \<Rightarrow> False | Some s \<Rightarrow> sql_like pat s)"

text \<open>\<open>searchFeedItems\<close>; the limit defaults to 50.\<close>

definition searchFeedRows :: "FeedDatabase \<Rightarrow> string \<Rightarrow> int option \<Rightarrow> Row list" where
  "searchFeedRows db query limit =
     (let searchQuery = ''%'' @ query @ ''%'';
          lim = (case limit of None \<Rightarrow> 50 | Some L \<Rightarrow> L)
      in sql_limit lim
           (order_by_rank
              (filter (\<lambda>r. sql_like searchQuery (row_title r) \<or>
                            like_null searchQuery (row_content r)) db)))"

definition searchFeedItems :: "FeedDatabase \<Rightarrow> string \<Rightarrow> int option \<Rightarrow> FeedItem list" where
  "searchFeedItems db query limit = map fromRow (searchFeedRows db query limit)"




section \<open>Feed registrations (storage/config.ts)\<close>

text \<open>
  The state of a \<open>ConfigManager\<close>: the list \<open>config.rss_feeds\<close> held in memory and the
  list last written to the configuration file. Whether a write to the file succeeds is
  decided outside the program, so it is a parameter of every operation that writes.
\<close>

record ConfigManager =
  rss_feeds :: "RSSFeedConfig list"
  saved_feeds :: "RSSFeedConfig list"

datatype config_error = DuplicateFeed string | SaveFailed

definition saveConfig :: "bool \<Rightarrow> ConfigManager \<Rightarrow> ConfigManager \<times> (config_error + unit)" where
  "saveConfig write_ok cm =
     (if write_ok then (cm\<lparr>saved_feeds := rss_feeds cm\<rparr>, Inr ())
      else (cm, Inl SaveFailed))"

definition getRSSFeeds :: "ConfigManager \<Rightarrow> RSSFeedConfig list" where
  "getRSSFeeds cm = rss_feeds cm"

text \<open>\<open>addRSSFeed\<close> returns the state it leaves behind and either the error thrown or
  unit.\<close>

definition addRSSFeed ::
  "bool \<Rightarrow> RSSFeedConfig \<Rightarrow> ConfigManager \<Rightarrow> ConfigManager \<times> (config_error + unit)" where
  "addRSSFeed write_ok feed cm =
     (let exists = list_ex (\<lambda>f. feed_url f = feed_url feed) (rss_feeds cm)
      in if exists then (cm, Inl (DuplicateFeed (feed_url feed)))
         else saveConfig write_ok (cm\<lparr>rss_feeds := rss_feeds cm @ [feed]\<rparr>))"

text \<open>\<open>removeRSSFeed\<close> returns the state it leaves behind and either the error thrown
  by the write or the boolean result.\<close>

definition removeRSSFeed ::
  "bool \<Rightarrow> string \<Rightarrow> ConfigManager \<Rightarrow> ConfigManager \<times> (config_error + bool)" where
  "removeRSSFeed write_ok name cm =
     (let initialLength = length (rss_feeds cm);
          cm1 = cm\<lparr>rss_feeds := filter (\<lambda>f. feed_name f \<noteq> name) (rss_feeds cm)\<rparr>
      in if length (rss_feeds cm1) < initialLength
         then (case saveConfig write_ok cm1 of
                 (cm2, Inl e) \<Rightarrow> (cm2, Inl e)
               | (cm2, Inr u) \<Rightarrow> (cm2, Inr True))
         else (cm1, Inr False))"

definition configSources :: "ConfigManager \<Rightarrow> string list" where
  "configSources cm = ''hackernews'' # map (\<lambda>feed. ''rss:'' @ feed_name feed) (rss_feeds cm)"

definition empty_config :: ConfigManager where
  "empty_config = \<lparr>rss_feeds = [], saved_feeds = []\<rparr>"

text \<open>The registration states reachable from the empty list by add and remove
  operations that succeed: an add that returns, a remove that returns \<open>true\<close>.\<close>

inductive reachable :: "ConfigManager \<Rightarrow> bool" where
  reachable_empty: "reachable empty_config"
| reachable_add:
    "reachable cm \<Longrightarrow> addRSSFeed write_ok feed cm = (cm', Inr ()) \<Longrightarrow> reachable cm'"
| reachable_remove:
    "reachable cm \<Longrightarrow> removeRSSFeed write_ok name cm = (cm', Inr True) \<Longrightarrow> reachable cm'"

section \<open>Refreshing the cache (index.ts)\<close>

text \<open>
  What a source adapter hands back is decided by the network: the outcome of
  \<open>hnSource.fetchFeed(30)\<close> and, for every registration, the outcome of
  \<open>new RSSFeedSource(name, url).fetchFeed(50)\<close> are parameters, \<open>Inl\<close> carrying the
  error thrown and \<open>Inr\<close> the items. A line of the summary is either
  ``Refreshed NAME: N items'' or ``Failed to refresh NAME: ERROR''.
\<close>

datatype refresh_line = Refreshed string nat | FailedToRefresh string string

datatype refresh_error = RefreshCacheFailed string

text \<open>The loop over the registrations to refresh, with its own \<open>try\<close>/\<open>catch\<close>
  around the fetch and the save.\<close>

fun refresh_feeds ::
  "(RSSFeedConfig \<Rightarrow> string + FeedItem list) \<Rightarrow> RSSFeedConfig list \<Rightarrow>
   FeedDatabase \<times> refresh_line list \<Rightarrow> FeedDatabase \<times> refresh_line list" where
  "refresh_feeds rss_fetch [] (db, results) = (db, results)"
| "refresh_feeds rss_fetch (feed # feeds) (db, results) =
     (case rss_fetch feed of
        Inr items \<Rightarrow>
          (case saveFeedItems items db of
             Inr db' \<Rightarrow>
               refresh_feeds rss_fetch feeds
                 (db', results @ [Refreshed (feed_name feed) (length items)])
           | Inl e \<Rightarrow>
               refresh_feeds rss_fetch feeds
                 (db, results @ [FailedToRefresh (feed_name feed) (error_text e)]))
      | Inl error \<Rightarrow>
          refresh_feeds rss_fetch feeds
            (db, results @ [FailedToRefresh (feed_name feed) error]))"

text \<open>\<open>!source\<close> holds for an absent or empty selector.\<close>

definition no_source :: "string option \<Rightarrow> bool" where
  "no_source src = (case src of None \<Rightarrow> True | Some s \<Rightarrow> s = [])"

definition source_text :: "string option \<Rightarrow> string" where
  "source_text src = (case src of None \<Rightarrow> [] | Some s \<Rightarrow> s)"

text \<open>
  \<open>handleRefreshCache\<close>. The Hacker News fetch and save sit directly in the outer
  \<open>try\<close>, whose \<open>catch\<close> throws ``Failed to refresh cache''; the result is then
  \<open>Inl\<close>, and the store is as it was, since nothing has been saved before.
\<close>

definition handleRefreshCache ::
  "(string + FeedItem list) \<Rightarrow> (RSSFeedConfig \<Rightarrow> string + FeedItem list) \<Rightarrow>
   string option \<Rightarrow> ConfigManager \<Rightarrow> FeedDatabase \<Rightarrow>
   refresh_error + (FeedDatabase \<times> refresh_line list)" where
  "handleRefreshCache hn_fetch rss_fetch src cm db =
     (let results = [];
          hn_step =
            (if no_source src \<or> source_text src = ''hackernews''
             then (case hn_fetch of
                     Inl error \<Rightarrow> Inl (RefreshCacheFailed error)
                   | Inr hnItems \<Rightarrow>
                       (case saveFeedItems hnItems db of
                          Inl e \<Rightarrow> Inl (RefreshCacheFailed (error_text e))
                        | Inr db' \<Rightarrow>
                            Inr (db', results @ [Refreshed ''Hacker News'' (length hnItems)])))
             else Inr (db, results))
      in case hn_step of
           Inl e \<Rightarrow> Inl e
         | Inr st \<Rightarrow>
             if no_source src \<or> startsWith (source_text src) ''rss:''
             then (let rssFeeds = getRSSFeeds cm;
                       feedsToRefresh =
                         (if \<not> no_source src
                          then filter (\<lambda>f. ''rss:'' @ feed_name f = source_text src) rssFeeds
                          else rssFeeds)
                   in Inr (refresh_feeds rss_fetch feedsToRefresh st))
             else Inr st)"

section \<open>Specification-side definitions and example inputs for the cache store\<close>

text \<open>``Ordered by \<open>rank_score\<close> descending, then \<open>published_at\<close> descending'': the row
  \<open>a\<close> may stand before the row \<open>b\<close>.\<close>

definition rank_order :: "Row \<Rightarrow> Row \<Rightarrow> bool" where
  "rank_order a b \<longleftrightarrow>
     row_rank_score a > row_rank_score b \<or>
     (row_rank_score a = row_rank_score b \<and> row_published_at a \<ge> row_published_at b)"

text \<open>The time values, in milliseconds, that a stored row shows to a reader.\<close>

definition published_ms :: "Row \<Rightarrow> int" where
  "published_ms r = row_published_at r * 1000"


text \<open>The conjunction of the predicates of a query: the source, when one is given and
  is not the empty string; and, when a bound \<open>T\<close> (in milliseconds) is given, a
  publication time later than one second before \<open>T\<close>.\<close>

definition satisfies :: "FeedOptions \<Rightarrow> Row \<Rightarrow> bool" where
  "satisfies options r \<longleftrightarrow>
     (\<forall>S. opt_source options = Some S \<longrightarrow> S \<noteq> [] \<longrightarrow> row_source r = S) \<and>
     (\<forall>T. opt_since options = Some T \<longrightarrow> T - 1000 < published_ms r)"




text \<open>
  Matching with wildcards, said without reference to any matching procedure: a
  pattern matches a text when the text can be cut into one piece for every character
  of the pattern, the piece of a \<open>%\<close> being any string, the piece of a \<open>_\<close> any one
  character, and the piece of any other character that character, up to the case of
  ASCII letters.
\<close>

definition piece_ok :: "char \<Rightarrow> string \<Rightarrow> bool" where
  "piece_ok p s =
     (if p = CHR ''%'' then True
      else if p = CHR ''_'' then length s = 1
      else length s = 1 \<and> lower_char (hd s) = lower_char p)"

definition wildcard_match :: "string \<Rightarrow> string \<Rightarrow> bool" where
  "wildcard_match pat text \<longleftrightarrow> (\<exists>pieces. list_all2 piece_ok pat pieces \<and> concat pieces = text)"

text \<open>The query, with its wildcards, matches some part of the text.\<close>

definition wildcard_includes :: "string \<Rightarrow> string \<Rightarrow> bool" where
  "wildcard_includes query text \<longleftrightarrow>
     (\<exists>before part after. text = before @ part @ after \<and> wildcard_match query part)"

definition search_hit :: "string \<Rightarrow> Row \<Rightarrow> bool" where
  "search_hit query r \<longleftrightarrow>
     wildcard_includes query (row_title r) \<or>
     (\<exists>c. row_content r = Some c \<and> wildcard_includes query c)"

text \<open>Example rows and items.\<close>

definition mk_item :: "string \<Rightarrow> string \<Rightarrow> string \<Rightarrow> int \<Rightarrow> int \<Rightarrow> real \<Rightarrow> FeedItem" where
  "mk_item i s t pub cached score =
     \<lparr>item_id = i, source = s, title = t, url = ''https://example.com/'' @ i,
      content = None, author = None, points = None, comments = None,
      published_at = Date pub, cached_at = Date cached, rank_score = Some (Num score)\<rparr>"

definition mk_row :: "string \<Rightarrow> string \<Rightarrow> string \<Rightarrow> int \<Rightarrow> int \<Rightarrow> real \<Rightarrow> Row" where
  "mk_row i s t pub cached score =
     \<lparr>row_id = i, row_source = s, row_title = t, row_url = ''https://example.com/'' @ i,
      row_content = None, row_author = None, row_points = None, row_comments = None,
      row_published_at = pub, row_cached_at = cached, row_rank_score = score\<rparr>"

text \<open>The table after saving three items into the empty table.\<close>

definition db3 :: FeedDatabase where
  "db3 = [mk_row ''hn:1'' ''hackernews'' ''abc'' 5 900000 10,
          mk_row ''rss:blog:1'' ''rss:blog'' ''Rust guide'' 7 100000 40,
          mk_row ''hn:2'' ''hackernews'' ''Zig update'' 9 900000 10]"



section \<open>Example inputs for registrations and refresh\<close>

definition mk_feed :: "string \<Rightarrow> string \<Rightarrow> RSSFeedConfig" where
  "mk_feed n u = \<lparr>feed_url = u, feed_name = n, refresh_interval_minutes = None\<rparr>"

text \<open>One registration; two registrations with the same name and different URLs.\<close>

definition config_one :: ConfigManager where
  "config_one = \<lparr>rss_feeds = [mk_feed ''blog'' ''https://a.example/feed''],
                  saved_feeds = [mk_feed ''blog'' ''https://a.example/feed'']\<rparr>"

definition config_same_name :: ConfigManager where
  "config_same_name =
     \<lparr>rss_feeds = [mk_feed ''blog'' ''https://a.example/feed'',
                   mk_feed ''blog'' ''https://b.example/feed''],
      saved_feeds = [mk_feed ''blog'' ''https://a.example/feed'',
                     mk_feed ''blog'' ''https://b.example/feed'']\<rparr>"

text \<open>Three registrations, and adapters of which the one for ``bad'' fails.\<close>

definition config_three :: ConfigManager where
  "config_three =
     \<lparr>rss_feeds = [mk_feed ''one'' ''https://one.example/feed'',
                   mk_feed ''bad'' ''https://bad.example/feed'',
                   mk_feed ''two'' ''https://two.example/feed''],
      saved_feeds = [mk_feed ''one'' ''https://one.example/feed'',
                     mk_feed ''bad'' ''https://bad.example/feed'',
                     mk_feed ''two'' ''https://two.example/feed'']\<rparr>"

definition rss_one_bad :: "RSSFeedConfig \<Rightarrow> string + FeedItem list" where
  "rss_one_bad feed =
     (if feed_name feed = ''bad'' then Inl ''Error: timeout''
      else Inr [mk_item (''rss:'' @ feed_name feed @ '':1'') (''rss:'' @ feed_name feed)
                  ''A post'' 5000 9000 10])"


section \<open>Properties of the ranking\<close>

subsection \<open>Substring search\<close>

lemma startsWith_iff: "startsWith t k \<longleftrightarrow> (\<exists>s. t = k @ s)"
  by (induction t k rule: startsWith.induct) auto

lemma str_includes_iff: "str_includes t k \<longleftrightarrow> (\<exists>p s. t = p @ k @ s)"
proof (induction t)
  case Nil
  then show ?case by simp
next
  case (Cons c cs)
  show ?case
  proof
    assume "str_includes (c # cs) k"
    then consider "startsWith (c # cs) k" | "str_includes cs k" by auto
    then show "\<exists>p s. c # cs = p @ k @ s"
    proof cases
      case 1
      then obtain s where "c # cs = k @ s" using startsWith_iff by blast
      then have "c # cs = [] @ k @ s" by simp
      then show ?thesis by blast
    next
      case 2
      then obtain p s where "cs = p @ k @ s" using Cons.IH by blast
      then have "c # cs = (c # p) @ k @ s" by simp
      then show ?thesis by blast
    qed
  next
    assume "\<exists>p s. c # cs = p @ k @ s"
    then obtain p s where ps: "c # cs = p @ k @ s" by blast
    show "str_includes (c # cs) k"
    proof (cases p)
      case Nil
      with ps have "startsWith (c # cs) k" using startsWith_iff by auto
      then show ?thesis by simp
    next
      case (Cons a p')
      with ps have "cs = p' @ k @ s" by simp
      then have "str_includes cs k" using Cons.IH by blast
      then show ?thesis by simp
    qed
  qed
qed

subsection \<open>The keyword loops\<close>




subsection \<open>The worked example\<close>

lemma example_keyword: "calculateKeywordScore (example_item now) = 50"
  by code_simp

lemma example_engagement: "calculateEngagementScore (example_item now) = 45 / 2"
  by (simp add: calculateEngagementScore_def example_item_def)

lemma example_recency: "calculateRecencyScore now (example_item now) = Num 99"
  by (simp add: calculateRecencyScore_def example_item_def getTime_def arith_def Math_max_def)

lemma example_source: "calculateSourceScore (example_item now) = 20"
  by code_simp

text \<open>
  C2, as the specification states it, fails: the title also contains the keyword
  ``release'' of the practical-content category (inside ``released''), so the keyword
  component is 50 and not 30, and the total is 191.5 and not about 171.5.
\<close>

theorem example_score_counterexample:
  "calculateKeywordScore (example_item 1700003600000) \<noteq> 30 \<and>
   calculateKeywordScore (example_item 1700003600000) = 50 \<and>
   calculateRankScore 1700003600000 (example_item 1700003600000) = Num (383 / 2) \<and>
   \<not> \<bar>383 / 2 - 343 / 2\<bar> \<le> (1::real)"
  by (simp add: calculateRankScore_def example_keyword example_engagement
      example_recency example_source arith_def Math_max_def)

text \<open>
  C2, amended. For the example item published one hour before the scoring time, the
  keyword component is 50 (30 for ``agent'' and 20 for ``release''), the engagement
  component is 22.5, the recency component is 99, the source component is 20, and the
  score is 191.5.
\<close>

theorem example_score:
  "calculateKeywordScore (example_item now) = 50 \<and>
   calculateEngagementScore (example_item now) = 45 / 2 \<and>
   calculateRecencyScore now (example_item now) = Num 99 \<and>
   calculateSourceScore (example_item now) = 20 \<and>
   calculateRankScore now (example_item now) = Num (383 / 2)"
  by (simp add: calculateRankScore_def example_keyword example_engagement
      example_recency example_source arith_def Math_max_def)

subsection \<open>The floor at zero\<close>

text \<open>For an item whose \<open>published_at\<close> is a valid date the score is a real number and
  is not negative: the sum of the four components, or 0 when the sum is negative.\<close>

lemma calculateRecencyScore_valid:
  "published_at item = Date t \<Longrightarrow>
   calculateRecencyScore now item = Num (max 0 (100 - real_of_int (now - t) / 3600000))"
  by (simp add: calculateRecencyScore_def getTime_def arith_def Math_max_def)

lemma calculateRankScore_valid:
  assumes "published_at item = Date t"
  shows "calculateRankScore now item =
     Num (max 0 (calculateKeywordScore item + calculateEngagementScore item +
                 max 0 (100 - real_of_int (now - t) / 3600000) +
                 calculateSourceScore item))"
  by (simp add: calculateRankScore_def calculateRecencyScore_valid [OF assms]
      arith_def Math_max_def)

lemma calculateRankScore_valid_nonneg:
  "published_at item = Date t \<Longrightarrow> nonneg (calculateRankScore now item)"
  by (simp add: calculateRankScore_valid nonneg_def)

text \<open>The floor is reached: an old funding post from a general source sums to
  \<open>- 50\<close> and scores 0; the same post when fresh scores 50.\<close>

lemma funding_keyword: "calculateKeywordScore (funding_item pub) = - 40"
  by code_simp

lemma funding_source: "calculateSourceScore (funding_item pub) = - 10"
  by code_simp

lemma funding_engagement: "calculateEngagementScore (funding_item pub) = 0"
  by (simp add: calculateEngagementScore_def funding_item_def)

lemma funding_recency:
  "calculateRecencyScore 3600000000 (funding_item 0) = Num 0 \<and>
   calculateRecencyScore 0 (funding_item 0) = Num 100"
  by (simp add: calculateRecencyScore_def funding_item_def getTime_def arith_def Math_max_def)

lemma funding_item_clamped:
  "calculateRankScore 3600000000 (funding_item 0) = Num 0 \<and>
   calculateRankScore 0 (funding_item 0) = Num 50"
  by (simp add: calculateRankScore_def funding_keyword funding_source
      funding_engagement funding_recency arith_def Math_max_def)

text \<open>
  C3. The score function does not return a value greater than or equal to 0 for every
  item: for an item whose \<open>published_at\<close> is an Invalid Date, as the RSS adapter builds
  from a \<open>pubDate\<close> that does not parse, the recency component is NaN, the sum is
  NaN, \<open>Math.max(0, NaN)\<close> is NaN, and NaN is not greater than or equal to 0.
\<close>

theorem calculateRankScore_invalid_date:
  "calculateRecencyScore now (unparsed_date_item now) = NaN \<and>
   calculateRankScore now (unparsed_date_item now) = NaN \<and>
   \<not> nonneg (calculateRankScore now (unparsed_date_item now))"
  by (simp add: calculateRankScore_def calculateRecencyScore_def unparsed_date_item_def
      getTime_def arith_def Math_max_def nonneg_def)

section \<open>Properties of the cache store\<close>

subsection \<open>Queries\<close>

lemma order_by_rank_mset: "mset (order_by_rank rows) = mset rows"
  by (simp add: order_by_rank_def)

lemma order_by_rank_sorted: "sorted_wrt rank_order (order_by_rank rows)"
proof -
  let ?key = "\<lambda>r. (- row_rank_score r, - row_published_at r)"
  have "sorted (map ?key (order_by_rank rows))"
    by (simp add: order_by_rank_def)
  then have "sorted_wrt (\<lambda>a b. ?key a \<le> ?key b) (order_by_rank rows)"
    by (simp add: sorted_map)
  moreover have "?key a \<le> ?key b \<Longrightarrow> rank_order a b" for a b
    by (auto simp: less_eq_prod_def rank_order_def)
  ultimately show ?thesis
    by (rule sorted_wrt_mono_rel [rotated]) simp
qed

lemma whole_seconds_bound: "(T div 1000 \<le> p) = (T - 1000 < p * (1000::int))"
proof -
  have "T = 1000 * (T div 1000) + T mod 1000"
    by simp
  moreover have "0 \<le> T mod 1000" and "T mod 1000 < 1000"
    by simp_all
  ultimately show ?thesis
    by linarith
qed

lemma where_clauses_satisfies:
  "(where_source (opt_source options) r \<and> where_since (opt_since options) r) =
     satisfies options r"
  by (auto simp: where_source_def where_since_def satisfies_def published_ms_def
      whole_seconds_bound split: option.splits)

text \<open>
  C5, as the specification states it, fails. The empty source is given, and rows of
  other sources come back; the bound 5999 is given, and an item published at 5000
  comes back.
\<close>

theorem getFeedItems_counterexample:
  "map source (getFeedItems db3 \<lparr>opt_source = Some [], opt_limit = None, opt_since = None\<rparr>) =
     [''rss:blog'', ''hackernews'', ''hackernews''] \<and>
   map published_at (getFeedItems db3 \<lparr>opt_source = None, opt_limit = None, opt_since = Some 5999\<rparr>) =
     [Date 7000, Date 9000, Date 5000]"
  by code_simp

text \<open>
  C5, amended. The rows of a query without limit are exactly the stored rows that
  satisfy the predicates given (the source when it is given and not empty; when a
  bound \<open>T\<close> is given, a \<open>published_at\<close> later than one second before \<open>T\<close>, the
  comparison being made in whole seconds), ordered by \<open>rank_score\<close> descending, then
  \<open>published_at\<close> descending. A limit \<open>L\<close> that is given and positive keeps the first
  \<open>L\<close> of them. The items returned are these rows, in this order.
\<close>

theorem getFeedItems_query:
  "mset (selectFeedRows db (options\<lparr>opt_limit := None\<rparr>)) = filter_mset (satisfies options) (mset db) \<and>
   sorted_wrt rank_order (selectFeedRows db (options\<lparr>opt_limit := None\<rparr>)) \<and>
   (opt_limit options = None \<longrightarrow>
      selectFeedRows db options = selectFeedRows db (options\<lparr>opt_limit := None\<rparr>)) \<and>
   (\<forall>L. opt_limit options = Some L \<longrightarrow> 0 < L \<longrightarrow>
      selectFeedRows db options = take (nat L) (selectFeedRows db (options\<lparr>opt_limit := None\<rparr>))) \<and>
   getFeedItems db options = map fromRow (selectFeedRows db options)"
proof -
  have sat: "(\<lambda>r. where_source (opt_source options) r \<and> where_since (opt_since options) r) =
      satisfies options"
    by (rule ext) (rule where_clauses_satisfies)
  have all: "selectFeedRows db (options\<lparr>opt_limit := None\<rparr>) =
      order_by_rank (filter (satisfies options) db)"
    by (simp add: selectFeedRows_def sat)
  have m: "mset (order_by_rank (filter (satisfies options) db)) =
      filter_mset (satisfies options) (mset db)"
    by (simp add: order_by_rank_mset)
  have o: "sorted_wrt rank_order (order_by_rank (filter (satisfies options) db))"
    by (rule order_by_rank_sorted)
  have n: "opt_limit options = None \<longrightarrow>
      selectFeedRows db options = order_by_rank (filter (satisfies options) db)"
    by (simp add: selectFeedRows_def sat)
  have l: "\<forall>L. opt_limit options = Some L \<longrightarrow> 0 < L \<longrightarrow>
      selectFeedRows db options = take (nat L) (order_by_rank (filter (satisfies options) db))"
    by (simp add: selectFeedRows_def sat sql_limit_def)
  have g: "getFeedItems db options = map fromRow (selectFeedRows db options)"
    by (simp add: getFeedItems_def)
  show ?thesis
    unfolding all using m o n l g by (intro conjI)
qed

theorem getFeedItems_query_witness:
  "map row_id (selectFeedRows db3 \<lparr>opt_source = Some ''hackernews'', opt_limit = Some 1,
      opt_since = Some 5999\<rparr>) = [''hn:2''] \<and>
   map row_id (selectFeedRows db3 \<lparr>opt_source = Some ''hackernews'', opt_limit = None,
      opt_since = Some 5999\<rparr>) = [''hn:2'', ''hn:1''] \<and>
   mset (selectFeedRows db3 \<lparr>opt_source = Some ''hackernews'', opt_limit = None,
      opt_since = Some 5999\<rparr>) =
     filter_mset (satisfies \<lparr>opt_source = Some ''hackernews'', opt_limit = Some 1,
      opt_since = Some 5999\<rparr>) (mset db3) \<and>
   satisfies \<lparr>opt_source = Some ''hackernews'', opt_limit = Some 1, opt_since = Some 5999\<rparr>
     (mk_row ''hn:1'' ''hackernews'' ''abc'' 5 900000 10) \<and>
   \<not> satisfies \<lparr>opt_source = Some ''hackernews'', opt_limit = Some 1, opt_since = Some 5999\<rparr>
     (mk_row ''rss:blog:1'' ''rss:blog'' ''Rust guide'' 7 100000 40)"
proof -
  have all: "map row_id (selectFeedRows db3 \<lparr>opt_source = Some ''hackernews'', opt_limit = None,
      opt_since = Some 5999\<rparr>) = [''hn:2'', ''hn:1'']"
    by code_simp
  have s1: "satisfies \<lparr>opt_source = Some ''hackernews'', opt_limit = Some 1, opt_since = Some 5999\<rparr>
     (mk_row ''hn:1'' ''hackernews'' ''abc'' 5 900000 10)"
    by (simp add: satisfies_def mk_row_def published_ms_def)
  have s2: "\<not> satisfies \<lparr>opt_source = Some ''hackernews'', opt_limit = Some 1, opt_since = Some 5999\<rparr>
     (mk_row ''rss:blog:1'' ''rss:blog'' ''Rust guide'' 7 100000 40)"
    by (simp add: satisfies_def mk_row_def published_ms_def)
  note w = getFeedItems_query [of db3 "\<lparr>opt_source = Some ''hackernews'', opt_limit = Some 1,
      opt_since = Some 5999\<rparr>"]
  have lim: "opt_limit \<lparr>opt_source = Some ''hackernews'', opt_limit = Some 1,
      opt_since = Some 5999\<rparr> = Some 1"
    by simp
  have upd: "\<lparr>opt_source = Some ''hackernews'', opt_limit = Some 1,
      opt_since = Some 5999\<rparr>\<lparr>opt_limit := None\<rparr> =
      \<lparr>opt_source = Some ''hackernews'', opt_limit = None, opt_since = Some 5999\<rparr>"
    by simp
  note lim
  moreover from w have "\<forall>L. opt_limit \<lparr>opt_source = Some ''hackernews'', opt_limit = Some 1,
      opt_since = Some 5999\<rparr> = Some L \<longrightarrow> 0 < L \<longrightarrow>
     selectFeedRows db3 \<lparr>opt_source = Some ''hackernews'', opt_limit = Some 1,
      opt_since = Some 5999\<rparr> =
     take (nat L) (selectFeedRows db3 (\<lparr>opt_source = Some ''hackernews'', opt_limit = Some 1,
      opt_since = Some 5999\<rparr>\<lparr>opt_limit := None\<rparr>))"
    by (rule conjunct2 [THEN conjunct2, THEN conjunct2, THEN conjunct1])
  moreover have "(0::int) < 1"
    by simp
  ultimately have "selectFeedRows db3 \<lparr>opt_source = Some ''hackernews'', opt_limit = Some 1,
      opt_since = Some 5999\<rparr> =
     take (nat 1) (selectFeedRows db3 (\<lparr>opt_source = Some ''hackernews'', opt_limit = Some 1,
      opt_since = Some 5999\<rparr>\<lparr>opt_limit := None\<rparr>))"
    by blast
  then have one: "map row_id (selectFeedRows db3 \<lparr>opt_source = Some ''hackernews'', opt_limit = Some 1,
      opt_since = Some 5999\<rparr>) = [''hn:2'']"
    unfolding upd using all by (simp add: take_map [symmetric])
  from w have "mset (selectFeedRows db3 (\<lparr>opt_source = Some ''hackernews'', opt_limit = Some 1,
      opt_since = Some 5999\<rparr>\<lparr>opt_limit := None\<rparr>)) =
     filter_mset (satisfies \<lparr>opt_source = Some ''hackernews'', opt_limit = Some 1,
      opt_since = Some 5999\<rparr>) (mset db3)"
    by (rule conjunct1)
  then have ms: "mset (selectFeedRows db3 \<lparr>opt_source = Some ''hackernews'', opt_limit = None,
      opt_since = Some 5999\<rparr>) =
     filter_mset (satisfies \<lparr>opt_source = Some ''hackernews'', opt_limit = Some 1,
      opt_since = Some 5999\<rparr>) (mset db3)"
    unfolding upd .
  show ?thesis
    using one all ms s1 s2 by (intro conjI)
qed


subsection \<open>Search\<close>

lemma sql_like_percent_run:
  "sql_like ps t \<Longrightarrow> sql_like (CHR ''%'' # ps) (s @ t)"
proof (induction s)
  case Nil
  then show ?case by (cases t) simp_all
next
  case (Cons a s)
  then show ?case by simp
qed

lemma wildcard_match_sql_like:
  "wildcard_match pat t \<Longrightarrow> sql_like pat t"
proof (induction pat arbitrary: t)
  case Nil
  then show ?case by (simp add: wildcard_match_def)
next
  case (Cons p ps)
  from Cons.prems obtain s ss
    where piece: "piece_ok p s" and rest: "list_all2 piece_ok ps ss" and t: "t = s @ concat ss"
    by (auto simp: wildcard_match_def list_all2_Cons1)
  from rest have "wildcard_match ps (concat ss)"
    by (auto simp: wildcard_match_def)
  then have tail: "sql_like ps (concat ss)"
    by (rule Cons.IH)
  show ?case
  proof (cases "p = CHR ''%''")
    case True
    with tail show ?thesis
      unfolding t by (simp add: sql_like_percent_run)
  next
    case False
    with piece obtain c where s: "s = [c]" and c: "p = CHR ''_'' \<or> lower_char p = lower_char c"
      by (cases s) (auto simp: piece_ok_def split: if_splits)
    with False tail show ?thesis
      unfolding t by simp
  qed
qed

lemma sql_like_wildcard_match:
  "sql_like pat t \<Longrightarrow> wildcard_match pat t"
proof (induction pat t rule: sql_like.induct)
  case (1 t)
  then show ?case by (simp add: wildcard_match_def)
next
  case (2 p ps)
  then have "wildcard_match ps []" by simp
  then obtain ss where "list_all2 piece_ok ps ss" and "concat ss = []"
    by (auto simp: wildcard_match_def)
  moreover from 2 have "piece_ok p []" by (simp add: piece_ok_def)
  ultimately have "list_all2 piece_ok (p # ps) ([] # ss) \<and> concat ([] # ss) = []"
    by simp
  then show ?case
    unfolding wildcard_match_def by blast
next
  case (3 p ps c cs)
  show ?case
  proof (cases "p = CHR ''%''")
    case True
    with "3.prems" consider "sql_like ps (c # cs)" | "sql_like (p # ps) cs"
      by auto
    then show ?thesis
    proof cases
      case 1
      with True "3.IH"(1) have "wildcard_match ps (c # cs)" by simp
      then obtain ss where "list_all2 piece_ok ps ss" and "concat ss = c # cs"
        by (auto simp: wildcard_match_def)
      with True have "list_all2 piece_ok (p # ps) ([] # ss) \<and> concat ([] # ss) = c # cs"
        by (simp add: piece_ok_def)
      then show ?thesis
        unfolding wildcard_match_def by blast
    next
      case 2
      with True "3.IH"(2) have "wildcard_match (p # ps) cs" by simp
      then obtain s ss where "list_all2 piece_ok ps ss" and "s @ concat ss = cs"
        by (auto simp: wildcard_match_def list_all2_Cons1)
      with True have "list_all2 piece_ok (p # ps) ((c # s) # ss) \<and> concat ((c # s) # ss) = c # cs"
        by (simp add: piece_ok_def)
      then show ?thesis
        unfolding wildcard_match_def by blast
    qed
  next
    case False
    with "3.prems" have c: "p = CHR ''_'' \<or> lower_char p = lower_char c" and "sql_like ps cs"
      by simp_all
    with False "3.IH"(3) have "wildcard_match ps cs" by simp
    then obtain ss where "list_all2 piece_ok ps ss" and "concat ss = cs"
      by (auto simp: wildcard_match_def)
    with False c have "list_all2 piece_ok (p # ps) ([c] # ss) \<and> concat ([c] # ss) = c # cs"
      by (auto simp: piece_ok_def)
    then show ?thesis
      unfolding wildcard_match_def by blast
  qed
qed

lemma sql_like_iff: "sql_like pat t \<longleftrightarrow> wildcard_match pat t"
  by (blast intro: sql_like_wildcard_match wildcard_match_sql_like)

lemma search_pattern_iff:
  "sql_like (''%'' @ query @ ''%'') t \<longleftrightarrow> wildcard_includes query t"
proof
  assume "sql_like (''%'' @ query @ ''%'') t"
  then have "wildcard_match (CHR ''%'' # query @ [CHR ''%'']) t"
    by (simp add: sql_like_iff)
  then obtain b rest where "list_all2 piece_ok (query @ [CHR ''%'']) rest" and t: "t = b @ concat rest"
    by (auto simp: wildcard_match_def list_all2_Cons1)
  then obtain mid a where "list_all2 piece_ok query mid" and "rest = mid @ [a]"
    by (auto simp: list_all2_append1 list_all2_Cons1)
  with t have "t = b @ concat mid @ a \<and> wildcard_match query (concat mid)"
    by (auto simp: wildcard_match_def)
  then show "wildcard_includes query t"
    unfolding wildcard_includes_def by blast
next
  assume "wildcard_includes query t"
  then obtain b part a where t: "t = b @ part @ a" and "wildcard_match query part"
    unfolding wildcard_includes_def by blast
  then obtain mid where mid: "list_all2 piece_ok query mid" and part: "concat mid = part"
    by (auto simp: wildcard_match_def)
  have "list_all2 piece_ok (query @ [CHR ''%'']) (mid @ [a])"
    using mid by (simp add: list_all2_appendI piece_ok_def)
  then have "list_all2 piece_ok (CHR ''%'' # query @ [CHR ''%'']) (b # mid @ [a])"
    by (simp add: piece_ok_def)
  moreover have "concat (b # mid @ [a]) = t"
    using t part by simp
  ultimately have "wildcard_match (CHR ''%'' # query @ [CHR ''%'']) t"
    unfolding wildcard_match_def by blast
  then show "sql_like (''%'' @ query @ ''%'') t"
    by (simp add: sql_like_iff)
qed

lemma search_where_iff:
  "(sql_like (''%'' @ query @ ''%'') (row_title r) \<or>
    like_null (''%'' @ query @ ''%'') (row_content r)) = search_hit query r"
  by (cases "row_content r")
     (simp_all add: search_hit_def like_null_def search_pattern_iff [simplified])

lemma underscore_any_char: "wildcard_match ''_'' [c]"
proof -
  have "list_all2 piece_ok ''_'' [[c]] \<and> concat [[c]] = [c]"
    by (simp add: piece_ok_def)
  then show ?thesis
    unfolding wildcard_match_def by blast
qed

lemma percent_any_run: "wildcard_match ''%'' s"
proof -
  have "list_all2 piece_ok ''%'' [s] \<and> concat [s] = s"
    by (simp add: piece_ok_def)
  then show ?thesis
    unfolding wildcard_match_def by blast
qed

lemma search_examples:
  "map row_title (searchFeedRows db3 ''a_c'' None) = [''abc''] \<and>
   map row_title (searchFeedRows db3 ''R%g'' None) = [''Rust guide''] \<and>
   searchFeedRows db3 ''x_z'' None = [] \<and>
   map row_title (searchFeedRows db3 ''UST'' None) = [''Rust guide'']"
  by code_simp

text \<open>
  C10. The pattern of \<open>searchFeedItems\<close> is the query between two \<open>%\<close>, not escaped, so
  a \<open>%\<close> or \<open>_\<close> of the query is a wildcard: the rows found are exactly the rows of
  which the title or the content has a part that the query matches, a \<open>_\<close> of the
  query standing for any one character and a \<open>%\<close> for any run of characters. So the
  query \<open>a_c\<close> finds the title \<open>abc\<close> and the query \<open>R%g\<close> the title \<open>Rust guide\<close>,
  neither of which contains the query, while \<open>x_z\<close> finds nothing: some query that
  contains \<open>%\<close> or \<open>_\<close> returns an item whose title and content do not contain the
  query as a substring.
\<close>

theorem searchFeedItems_wildcards:
  "searchFeedRows db query limit =
     sql_limit (case limit of None \<Rightarrow> 50 | Some L \<Rightarrow> L)
       (order_by_rank (filter (search_hit query) db)) \<and>
   searchFeedItems db query limit = map fromRow (searchFeedRows db query limit) \<and>
   wildcard_match ''_'' [c] \<and>
   wildcard_match ''%'' s \<and>
   map title (searchFeedItems db3 ''a_c'' None) = [''abc''] \<and>
   \<not> str_includes ''abc'' ''a_c'' \<and>
   map title (searchFeedItems db3 ''R%g'' None) = [''Rust guide''] \<and>
   \<not> str_includes ''Rust guide'' ''R%g'' \<and>
   searchFeedItems db3 ''x_z'' None = [] \<and>
   (\<exists>query db item.
      (CHR ''%'' \<in> set query \<or> CHR ''_'' \<in> set query) \<and>
      item \<in> set (searchFeedItems db query None) \<and>
      \<not> str_includes (title item) query \<and>
      (case content item of None \<Rightarrow> True | Some c \<Rightarrow> \<not> str_includes c query))"
proof -
  have where_eq: "(\<lambda>r. sql_like (''%'' @ query @ ''%'') (row_title r) \<or>
      like_null (''%'' @ query @ ''%'') (row_content r)) = search_hit query"
    by (rule ext) (rule search_where_iff)
  have rows: "searchFeedRows db query limit =
     sql_limit (case limit of None \<Rightarrow> 50 | Some L \<Rightarrow> L)
       (order_by_rank (filter (search_hit query) db))"
    unfolding searchFeedRows_def Let_def where_eq by (rule refl)
  have items: "searchFeedItems db query limit = map fromRow (searchFeedRows db query limit)"
    by (simp add: searchFeedItems_def)
  have titles: "map title (map fromRow rs) = map row_title rs" for rs
    by (simp add: fromRow_def comp_def)
  have e1: "map title (searchFeedItems db3 ''a_c'' None) = [''abc'']"
    unfolding searchFeedItems_def titles using search_examples by (rule conjunct1)
  have e2: "map title (searchFeedItems db3 ''R%g'' None) = [''Rust guide'']"
    unfolding searchFeedItems_def titles
    using search_examples by (rule conjunct2 [THEN conjunct1])
  have e3: "searchFeedItems db3 ''x_z'' None = []"
    unfolding searchFeedItems_def
    using search_examples [THEN conjunct2, THEN conjunct2, THEN conjunct1] by simp
  have n1: "\<not> str_includes ''abc'' ''a_c''"
    by simp
  have n2: "\<not> str_includes ''Rust guide'' ''R%g''"
    by simp
  have found: "searchFeedItems db3 ''a_c'' None =
      [fromRow (mk_row ''hn:1'' ''hackernews'' ''abc'' 5 900000 10)]"
    by code_simp
  have "CHR ''_'' \<in> set ''a_c''"
    by simp
  moreover have "fromRow (mk_row ''hn:1'' ''hackernews'' ''abc'' 5 900000 10)
      \<in> set (searchFeedItems db3 ''a_c'' None)"
    unfolding found by simp
  moreover have "title (fromRow (mk_row ''hn:1'' ''hackernews'' ''abc'' 5 900000 10)) = ''abc''"
    by (simp add: fromRow_def mk_row_def)
  moreover have "content (fromRow (mk_row ''hn:1'' ''hackernews'' ''abc'' 5 900000 10)) = None"
    by (simp add: fromRow_def mk_row_def)
  ultimately have
    "(CHR ''%'' \<in> set ''a_c'' \<or> CHR ''_'' \<in> set ''a_c'') \<and>
     fromRow (mk_row ''hn:1'' ''hackernews'' ''abc'' 5 900000 10)
       \<in> set (searchFeedItems db3 ''a_c'' None) \<and>
     \<not> str_includes (title (fromRow (mk_row ''hn:1'' ''hackernews'' ''abc'' 5 900000 10))) ''a_c'' \<and>
     (case content (fromRow (mk_row ''hn:1'' ''hackernews'' ''abc'' 5 900000 10)) of
        None \<Rightarrow> True | Some c \<Rightarrow> \<not> str_includes c ''a_c'')"
    using n1 by simp
  then have ex: "\<exists>query db item.
      (CHR ''%'' \<in> set query \<or> CHR ''_'' \<in> set query) \<and>
      item \<in> set (searchFeedItems db query None) \<and>
      \<not> str_includes (title item) query \<and>
      (case content item of None \<Rightarrow> True | Some c \<Rightarrow> \<not> str_includes c query)"
    by blast
  show ?thesis
    using rows items underscore_any_char [of c] percent_any_run [of s] e1 n1 e2 n2 e3 ex
    by (intro conjI)
qed


subsection \<open>Upsert and the primary key\<close>












subsection \<open>Eviction\<close>






section \<open>Properties of the registrations\<close>

lemma url_exists_iff:
  "list_ex (\<lambda>f. feed_url f = feed_url feed) feeds \<longleftrightarrow> feed_url feed \<in> set (map feed_url feeds)"
  by (force simp: list_ex_iff)

text \<open>
  C8. Adding a registration whose URL is the URL of an existing one fails with the
  duplicate error and changes neither the list in memory nor the file, whether or not
  the file could be written. When no registration has that URL and the file is
  written, the registration is appended to the list and the file holds the new list.
\<close>

theorem addRSSFeed_duplicate_rejected:
  "(feed_url feed \<in> set (map feed_url (rss_feeds cm)) \<longrightarrow>
      addRSSFeed write_ok feed cm = (cm, Inl (DuplicateFeed (feed_url feed)))) \<and>
   (feed_url feed \<notin> set (map feed_url (rss_feeds cm)) \<longrightarrow>
      addRSSFeed True feed cm =
        (cm\<lparr>rss_feeds := rss_feeds cm @ [feed], saved_feeds := rss_feeds cm @ [feed]\<rparr>, Inr ()))"
  by (simp add: addRSSFeed_def saveConfig_def url_exists_iff)

theorem addRSSFeed_duplicate_rejected_witness:
  "feed_url (mk_feed ''other'' ''https://a.example/feed'') \<in> set (map feed_url (rss_feeds config_one)) \<and>
   addRSSFeed True (mk_feed ''other'' ''https://a.example/feed'') config_one =
     (config_one, Inl (DuplicateFeed ''https://a.example/feed'')) \<and>
   feed_url (mk_feed ''blog'' ''https://b.example/feed'') \<notin> set (map feed_url (rss_feeds config_one)) \<and>
   addRSSFeed True (mk_feed ''blog'' ''https://b.example/feed'') config_one =
     (config_same_name, Inr ())"
proof -
  have d: "feed_url (mk_feed ''other'' ''https://a.example/feed'') \<in>
      set (map feed_url (rss_feeds config_one))"
    by (simp add: mk_feed_def config_one_def)
  have n: "feed_url (mk_feed ''blog'' ''https://b.example/feed'') \<notin>
      set (map feed_url (rss_feeds config_one))"
    by (simp add: mk_feed_def config_one_def)
  have u: "feed_url (mk_feed ''other'' ''https://a.example/feed'') = ''https://a.example/feed''"
    by (simp add: mk_feed_def)
  have c: "config_one\<lparr>rss_feeds := rss_feeds config_one @ [mk_feed ''blog'' ''https://b.example/feed''],
      saved_feeds := rss_feeds config_one @ [mk_feed ''blog'' ''https://b.example/feed'']\<rparr> =
      config_same_name"
    by (simp add: config_one_def config_same_name_def)
  show ?thesis
    using addRSSFeed_duplicate_rejected [of "mk_feed ''other'' ''https://a.example/feed''" config_one True]
      addRSSFeed_duplicate_rejected [of "mk_feed ''blog'' ''https://b.example/feed''" config_one True]
      d n u c
    by simp
qed

lemma addRSSFeed_urls:
  assumes "distinct (map feed_url (rss_feeds cm))"
    and "addRSSFeed write_ok feed cm = (cm', res)"
  shows "distinct (map feed_url (rss_feeds cm'))"
proof (cases "feed_url feed \<in> set (map feed_url (rss_feeds cm))")
  case True
  with assms(2) have "cm' = cm"
    by (simp add: addRSSFeed_def url_exists_iff)
  with assms(1) show ?thesis by simp
next
  case False
  with assms(2) have "rss_feeds cm' = rss_feeds cm @ [feed]"
    by (auto simp: addRSSFeed_def saveConfig_def url_exists_iff split: if_splits)
  with assms(1) False show ?thesis by simp
qed

lemma removeRSSFeed_feeds:
  assumes "removeRSSFeed write_ok name cm = (cm', res)"
  shows "rss_feeds cm' = filter (\<lambda>f. feed_name f \<noteq> name) (rss_feeds cm)"
  using assms
  by (auto simp: removeRSSFeed_def saveConfig_def Let_def split: if_splits)

lemma removeRSSFeed_urls:
  assumes "distinct (map feed_url (rss_feeds cm))"
    and "removeRSSFeed write_ok name cm = (cm', res)"
  shows "distinct (map feed_url (rss_feeds cm'))"
  using assms(1) removeRSSFeed_feeds [OF assms(2)]
  by (simp add: distinct_map_filter)

lemma reachable_config_one: "reachable config_one"
proof -
  have "addRSSFeed True (mk_feed ''blog'' ''https://a.example/feed'') empty_config =
      (config_one, Inr ())"
    by (simp add: addRSSFeed_def saveConfig_def empty_config_def config_one_def)
  with reachable_empty show ?thesis
    by (rule reachable_add)
qed

lemma reachable_config_same_name: "reachable config_same_name"
proof -
  have "addRSSFeed True (mk_feed ''blog'' ''https://b.example/feed'') config_one =
      (config_same_name, Inr ())"
    by (simp add: addRSSFeed_def saveConfig_def config_one_def config_same_name_def mk_feed_def)
  with reachable_config_one show ?thesis
    by (rule reachable_add)
qed

text \<open>
  C9, as the specification states it, fails: \<open>addRSSFeed\<close> compares URLs only, so two
  successful adds with one name and two URLs lead to a list with a repeated name.
\<close>

theorem registration_names_counterexample:
  "reachable config_same_name \<and> \<not> distinct (map feed_name (rss_feeds config_same_name))"
  using reachable_config_same_name
  by (simp add: config_same_name_def mk_feed_def)

text \<open>
  C9, amended. In every registration list reachable from the empty list by successful
  add and remove operations the URLs are pairwise distinct.
\<close>

theorem reachable_urls_distinct:
  "reachable cm \<Longrightarrow> distinct (map feed_url (rss_feeds cm))"
proof (induction rule: reachable.induct)
  case reachable_empty
  show ?case by (simp add: empty_config_def)
next
  case (reachable_add cm write_ok feed cm')
  then show ?case by (blast intro: addRSSFeed_urls)
next
  case (reachable_remove cm write_ok name cm')
  then show ?case by (blast intro: removeRSSFeed_urls)
qed

theorem reachable_urls_distinct_witness:
  "reachable config_same_name \<and> distinct (map feed_url (rss_feeds config_same_name))"
  using reachable_urls_distinct [OF reachable_config_same_name] reachable_config_same_name
  by simp

section \<open>Properties of the refresh\<close>

text \<open>The loop over the registrations records one line for every registration, in
  order, whatever the adapters return.\<close>

lemma refresh_feeds_lines:
  "map (\<lambda>l. case l of Refreshed n k \<Rightarrow> n | FailedToRefresh n e \<Rightarrow> n)
       (snd (refresh_feeds rss_fetch feeds (db, results))) =
   map (\<lambda>l. case l of Refreshed n k \<Rightarrow> n | FailedToRefresh n e \<Rightarrow> n) results @
   map feed_name feeds"
  by (induction feeds arbitrary: db results) (auto split: sum.splits)

text \<open>A failing registration among three is recorded by name, and the other two are
  saved.\<close>

lemma refresh_rss_failure_isolated:
  "handleRefreshCache (Inr []) rss_one_bad None config_three [] =
     Inr ([mk_row ''rss:one:1'' ''rss:one'' ''A post'' 5 9 10,
           mk_row ''rss:two:1'' ''rss:two'' ''A post'' 5 9 10],
          [Refreshed ''Hacker News'' 0, Refreshed ''one'' 1,
           FailedToRefresh ''bad'' ''Error: timeout'', Refreshed ''two'' 1])"
  by code_simp

text \<open>No failure of a registration makes the operation throw: when the Hacker News
  items are fetched and saved, or that source is not selected, a summary is
  returned.\<close>

lemma refresh_returns_when_hn_ok:
  "saveFeedItems hnItems db = Inr db1 \<Longrightarrow>
   \<exists>db' lines. handleRefreshCache (Inr hnItems) rss_fetch src cm db = Inr (db', lines)"
  by (cases "refresh_feeds rss_fetch
        (if \<not> no_source src
         then filter (\<lambda>f. ''rss:'' @ feed_name f = source_text src) (getRSSFeeds cm)
         else getRSSFeeds cm)
        (db1, [Refreshed ''Hacker News'' (length hnItems)])")
     (auto simp: handleRefreshCache_def Let_def)

text \<open>A failure of the Hacker News fetch, whenever that fetch is made, is thrown.\<close>

lemma refresh_throws_when_hn_fails:
  "no_source src \<or> source_text src = ''hackernews'' \<Longrightarrow>
   handleRefreshCache (Inl error) rss_fetch src cm db = Inl (RefreshCacheFailed error)"
  by (simp add: handleRefreshCache_def)

text \<open>
  C1. When no source is selected and the Hacker News fetch fails, the operation throws
  and no registration is refreshed, although the two healthy registrations could have
  been: the failure of this one sub-source is not recorded in a summary.
\<close>

theorem refresh_hn_failure_throws:
  "handleRefreshCache (Inl ''Error: timeout'') rss_one_bad None config_three [] =
     Inl (RefreshCacheFailed ''Error: timeout'')"
  by (simp add: handleRefreshCache_def no_source_def)


end
